theory Spec2Isabelle
  imports Main "HOL-Library.Word"
begin

unbundle bit_operations_syntax

section \<open>The journey service of \<^verbatim>\<open>app/main.py\<close>\<close>

text \<open>
  The program is a FastAPI application over one SQLite table. Each handler is embedded as
  a function from the committed table contents to a result and the new table contents.
  What the handlers receive from outside is made a parameter: the Mistral client (a
  function from the model name and the message list to a completion, or to the exception
  it raises) and the sixteen random bytes that \<^verbatim>\<open>uuid.uuid4()\<close> reads.
\<close>

subsection \<open>Rows of the \<^verbatim>\<open>journey\<close> table and the request schemas\<close>

text \<open>
  \<^verbatim>\<open>class Journey(Base)\<close>: four columns, \<^verbatim>\<open>id\<close> the primary key. The column names
  carry the suffix \<open>_col\<close> since the schema classes below use the same field names.
\<close>

record Journey =
  id_col :: string
  name_col :: string
  description_col :: string
  ai_response_col :: "string option"

text \<open>
  \<^verbatim>\<open>class JourneyCreate(BaseModel)\<close> and \<^verbatim>\<open>class JourneyResponse(JourneyCreate)\<close>,
  which adds \<^verbatim>\<open>id\<close> (named \<open>id_field\<close> here, \<open>id\<close> being the identity function of HOL).
\<close>

record JourneyCreate =
  name :: string
  description :: string
  ai_response :: "string option"

record JourneyResponse = JourneyCreate +
  id_field :: string

subsection \<open>Request bodies and their validation\<close>

text \<open>
  A request body is a parsed JSON object: a dictionary from keys to JSON values. The
  schema classes are pydantic models and the routes are FastAPI routes; what the two
  libraries do with the declarations of the source is written out below: a \<^verbatim>\<open>str\<close> field
  takes a JSON string and nothing else (pydantic 2, which the imported \<^verbatim>\<open>Mistral\<close> client
  needs), a field without default is required, and undeclared keys are ignored.
\<close>

datatype json = JNull | JBool bool | JNum int | JStr string
  | JArr "json list" | JObj "(string \<times> json) list"

type_synonym body = "string \<rightharpoonup> json"

text \<open>
  One entry of the error list that the framework sends back when a body does not fit the
  schema: the kind of error, the location (\<^verbatim>\<open>["body", field]\<close>) and the message.
\<close>

datatype ErrorDetails = ErrorDetails (err_type: string) (err_loc: "string list") (err_msg: string)

definition missing :: "string \<Rightarrow> ErrorDetails" where
  "missing f = ErrorDetails ''missing'' [''body'', f] ''Field required''"

definition string_type :: "string \<Rightarrow> ErrorDetails" where
  "string_type f = ErrorDetails ''string_type'' [''body'', f] ''Input should be a valid string''"

text \<open>A field annotated \<^verbatim>\<open>str\<close>: it must be there and be a JSON string.\<close>

definition str_errors :: "string \<Rightarrow> body \<Rightarrow> ErrorDetails list" where
  "str_errors f b =
     (case b f of
        None \<Rightarrow> [missing f]
      | Some (JStr s) \<Rightarrow> []
      | Some _ \<Rightarrow> [string_type f])"

definition str_value :: "string \<Rightarrow> body \<Rightarrow> string" where
  "str_value f b = (case b f of Some (JStr s) \<Rightarrow> s | _ \<Rightarrow> [])"

text \<open>
  A field annotated \<^verbatim>\<open>Optional[str] = None\<close>: it may be missing or null, and is a JSON
  string otherwise.
\<close>

definition optional_str_errors :: "string \<Rightarrow> body \<Rightarrow> ErrorDetails list" where
  "optional_str_errors f b =
     (case b f of
        None \<Rightarrow> []
      | Some JNull \<Rightarrow> []
      | Some (JStr s) \<Rightarrow> []
      | Some _ \<Rightarrow> [string_type f])"

definition optional_str_value :: "string \<Rightarrow> body \<Rightarrow> string option" where
  "optional_str_value f b = (case b f of Some (JStr s) \<Rightarrow> Some s | _ \<Rightarrow> None)"

text \<open>
  The body against \<^verbatim>\<open>JourneyCreate\<close>: the errors of all three fields in the order of
  declaration, or the model when there is none. Keys that the schema does not declare
  are ignored.
\<close>

definition validate_JourneyCreate :: "body \<Rightarrow> ErrorDetails list + JourneyCreate" where
  "validate_JourneyCreate b =
     (let errors = str_errors ''name'' b @ str_errors ''description'' b
                   @ optional_str_errors ''ai_response'' b
      in if errors = []
         then Inr \<lparr>name = str_value ''name'' b,
                   description = str_value ''description'' b,
                   ai_response = optional_str_value ''ai_response'' b\<rparr>
         else Inl errors)"

subsection \<open>\<^verbatim>\<open>str(uuid.uuid4())\<close>\<close>

text \<open>
  \<^verbatim>\<open>uuid4()\<close> is \<^verbatim>\<open>UUID(bytes=os.urandom(16), version=4)\<close>: the sixteen bytes read as
  one 128-bit number, with the variant and the version bits overwritten.
\<close>

definition uuid4 :: "128 word \<Rightarrow> 128 word" where
  "uuid4 urandom =
     (let i = urandom AND NOT (push_bit 48 0xc000);
          i = i OR push_bit 48 0x8000;
          i = i AND NOT (push_bit 64 0xf000);
          i = i OR push_bit 76 4
      in i)"

definition hexdigit :: "nat \<Rightarrow> char" where
  "hexdigit d = ''0123456789abcdef'' ! d"

text \<open>\<^verbatim>\<open>'%032x' % n\<close> for a number below \<open>2 ^ 128\<close>: 32 hexadecimal digits.\<close>

definition hex32 :: "nat \<Rightarrow> string" where
  "hex32 n = map (\<lambda>i. hexdigit ((n div 16 ^ (31 - i)) mod 16)) [0..<32]"

text \<open>\<^verbatim>\<open>UUID.__str__\<close>: the digits in groups of 8, 4, 4, 4 and 12.\<close>

definition str_uuid :: "128 word \<Rightarrow> string" where
  "str_uuid u =
     (let hex = hex32 (unat u)
      in take 8 hex @ ''-'' @ take 4 (drop 8 hex) @ ''-'' @ take 4 (drop 12 hex) @ ''-''
         @ take 4 (drop 16 hex) @ ''-'' @ drop 20 hex)"

subsection \<open>The session on the table\<close>

text \<open>
  The table is the list of its rows. Every request opens its own session
  (\<^verbatim>\<open>get_db\<close>) and closes it on every exit, so what a request leaves behind is what it
  committed.
\<close>

type_synonym db = "Journey list"

text \<open>
  The exceptions other than \<^verbatim>\<open>HTTPException\<close> that the handlers meet: whatever the
  Mistral client raises (with its message), \<^verbatim>\<open>choices[0]\<close> on an empty list, the
  primary key violated at commit, and a refresh of a row that is not there.
\<close>

datatype error = ClientError string | IndexError | IntegrityError | InvalidRequestError

text \<open>\<^verbatim>\<open>str(e)\<close>; the messages of the two SQLAlchemy errors are cut to their first line.\<close>

fun str_error :: "error \<Rightarrow> string" where
  "str_error (ClientError m) = m"
| "str_error IndexError = ''list index out of range''"
| "str_error IntegrityError = ''(sqlite3.IntegrityError) UNIQUE constraint failed: journey.id''"
| "str_error InvalidRequestError = ''Could not refresh instance''"

text \<open>\<^verbatim>\<open>db.query(Journey).filter(Journey.id == journey_id).first()\<close>\<close>

definition query_first :: "string \<Rightarrow> db \<Rightarrow> Journey option" where
  "query_first journey_id db = find (\<lambda>r. id_col r = journey_id) db"

text \<open>\<^verbatim>\<open>db.query(Journey).all()\<close>\<close>

definition query_all :: "db \<Rightarrow> Journey list" where
  "query_all db = db"

text \<open>
  \<^verbatim>\<open>db.add(row); db.commit()\<close>: the INSERT fails when the primary key is already in
  the table, and then nothing is written.
\<close>

definition add_commit :: "Journey \<Rightarrow> db \<Rightarrow> error + db" where
  "add_commit row db =
     (if id_col row \<in> set (map id_col db) then Inl IntegrityError else Inr (db @ [row]))"

text \<open>\<^verbatim>\<open>db.refresh(row)\<close>: the row is read again by its primary key.\<close>

definition refresh :: "Journey \<Rightarrow> db \<Rightarrow> error + Journey" where
  "refresh row db =
     (case query_first (id_col row) db of None \<Rightarrow> Inl InvalidRequestError | Some r \<Rightarrow> Inr r)"

text \<open>
  The commit after \<^verbatim>\<open>db_journey.name = ...; db_journey.description = ...\<close>:
  \<^verbatim>\<open>UPDATE journey SET name=?, description=? WHERE id=?\<close>.
\<close>

definition update_commit :: "string \<Rightarrow> string \<Rightarrow> string \<Rightarrow> db \<Rightarrow> db" where
  "update_commit journey_id n d db =
     map (\<lambda>r. if id_col r = journey_id then r\<lparr>name_col := n, description_col := d\<rparr> else r) db"

text \<open>\<^verbatim>\<open>db.delete(row); db.commit()\<close>: \<^verbatim>\<open>DELETE FROM journey WHERE id=?\<close>.\<close>

definition delete_commit :: "string \<Rightarrow> db \<Rightarrow> db" where
  "delete_commit journey_id db = filter (\<lambda>r. id_col r \<noteq> journey_id) db"

subsection \<open>The Mistral client\<close>

text \<open>
  \<^verbatim>\<open>client.chat.complete(model=..., messages=[...])\<close> returns a completion or raises.
  Of the completion the handler reads \<^verbatim>\<open>choices[i].message.content\<close> only, so a
  completion is the list of these contents (a content may be null).
\<close>

record ChatCompletionResponse =
  choices :: "string option list"

type_synonym message = "string \<times> string"

type_synonym client = "string \<Rightarrow> message list \<Rightarrow> error + ChatCompletionResponse"

definition model :: string where
  "model = ''mistral-large-latest''"

subsection \<open>Responses\<close>

text \<open>
  What a handler raises: \<^verbatim>\<open>HTTPException(status_code, detail)\<close>, or another exception
  that nothing catches.
\<close>

datatype raised = HTTPException nat string | Uncaught error

text \<open>The bodies of the responses, one constructor for each shape the service sends.\<close>

datatype content =
    ChatReply "string option"
  | Greeting string
  | JourneyBody JourneyResponse
  | JourneyList "JourneyResponse list"
  | Message string
  | Detail string
  | ValidationDetail "ErrorDetails list"
  | PlainText string

record response =
  status_code :: nat
  content :: content

text \<open>\<^verbatim>\<open>response_model=JourneyResponse\<close> applied to a row.\<close>

definition JourneyResponse_of :: "Journey \<Rightarrow> JourneyResponse" where
  "JourneyResponse_of r =
     \<lparr>name = name_col r, description = description_col r,
      ai_response = ai_response_col r, id_field = id_col r\<rparr>"

subsection \<open>The handlers\<close>

text \<open>
  The body of the \<^verbatim>\<open>try\<close> block of \<^verbatim>\<open>chat_with_mistral\<close>: the call, the first choice,
  the new row with its own \<^verbatim>\<open>str(uuid.uuid4())\<close>, add, commit and refresh.
\<close>

definition chat_with_mistral_try ::
  "client \<Rightarrow> 128 word \<Rightarrow> JourneyCreate \<Rightarrow> db \<Rightarrow> (error + content) \<times> db" where
  "chat_with_mistral_try client urandom journey db =
     (case client model [(''user'', description journey)] of
        Inl e \<Rightarrow> (Inl e, db)
      | Inr chat_response \<Rightarrow>
          (case choices chat_response of
             [] \<Rightarrow> (Inl IndexError, db)
           | ai_response' # _ \<Rightarrow>
               (let new_journey = \<lparr>id_col = str_uuid (uuid4 urandom),
                                   name_col = name journey,
                                   description_col = description journey,
                                   ai_response_col = ai_response'\<rparr>
                in case add_commit new_journey db of
                     Inl e \<Rightarrow> (Inl e, db)
                   | Inr db' \<Rightarrow>
                       (case refresh new_journey db' of
                          Inl e \<Rightarrow> (Inl e, db')
                        | Inr _ \<Rightarrow> (Inr (ChatReply ai_response'), db')))))"

text \<open>\<^verbatim>\<open>except Exception as e: raise HTTPException(status_code=500, detail=str(e))\<close>\<close>

definition chat_with_mistral ::
  "client \<Rightarrow> 128 word \<Rightarrow> JourneyCreate \<Rightarrow> db \<Rightarrow> (raised + content) \<times> db" where
  "chat_with_mistral client urandom journey db =
     (case chat_with_mistral_try client urandom journey db of
        (Inl e, db') \<Rightarrow> (Inl (HTTPException 500 (str_error e)), db')
      | (Inr v, db') \<Rightarrow> (Inr v, db'))"

definition root :: "string \<Rightarrow> content" where
  "root nm = Greeting (''Hello, '' @ nm)"

text \<open>
  \<^verbatim>\<open>create_journey\<close>: the row gets the column default of \<^verbatim>\<open>id\<close>,
  \<^verbatim>\<open>str(uuid.uuid4())\<close>, and no \<^verbatim>\<open>ai_response\<close>.
\<close>

definition create_journey :: "128 word \<Rightarrow> JourneyCreate \<Rightarrow> db \<Rightarrow> (raised + content) \<times> db" where
  "create_journey urandom journey db =
     (let db_journey = \<lparr>id_col = str_uuid (uuid4 urandom),
                        name_col = name journey,
                        description_col = description journey,
                        ai_response_col = None\<rparr>
      in case add_commit db_journey db of
           Inl e \<Rightarrow> (Inl (Uncaught e), db)
         | Inr db' \<Rightarrow>
             (case refresh db_journey db' of
                Inl e \<Rightarrow> (Inl (Uncaught e), db')
              | Inr r \<Rightarrow> (Inr (JourneyBody (JourneyResponse_of r)), db')))"

definition read_journey :: "string \<Rightarrow> db \<Rightarrow> (raised + content) \<times> db" where
  "read_journey journey_id db =
     (case query_first journey_id db of
        None \<Rightarrow> (Inl (HTTPException 404 ''Journey not found''), db)
      | Some journey \<Rightarrow> (Inr (JourneyBody (JourneyResponse_of journey)), db))"

definition read_journeys :: "db \<Rightarrow> (raised + content) \<times> db" where
  "read_journeys db = (Inr (JourneyList (map JourneyResponse_of (query_all db))), db)"

definition update_journey :: "string \<Rightarrow> JourneyCreate \<Rightarrow> db \<Rightarrow> (raised + content) \<times> db" where
  "update_journey journey_id journey db =
     (case query_first journey_id db of
        None \<Rightarrow> (Inl (HTTPException 404 ''Journey not found''), db)
      | Some db_journey \<Rightarrow>
          (let db' = update_commit (id_col db_journey) (name journey) (description journey) db
           in case refresh db_journey db' of
                Inl e \<Rightarrow> (Inl (Uncaught e), db')
              | Inr r \<Rightarrow> (Inr (JourneyBody (JourneyResponse_of r)), db')))"

definition delete_journey :: "string \<Rightarrow> db \<Rightarrow> (raised + content) \<times> db" where
  "delete_journey journey_id db =
     (case query_first journey_id db of
        None \<Rightarrow> (Inl (HTTPException 404 ''Journey not found''), db)
      | Some db_journey \<Rightarrow>
          (Inr (Message ''Journey deleted successfully''), delete_commit (id_col db_journey) db))"

subsection \<open>The routes\<close>

text \<open>
  The requests the application routes to a handler. The framework checks the body
  against the annotation of the handler's parameter before it calls the handler, and
  answers 422 with the error list when the check fails; a handler's return value is sent
  with 200, an \<^verbatim>\<open>HTTPException\<close> with its own status and detail, and any other
  exception as 500 with a fixed text.
\<close>

datatype request =
    PostJourneyChat body
  | GetBonjour string
  | PostJourneys body
  | GetJourney string
  | GetJourneys
  | PutJourney string body
  | DeleteJourney string

definition respond :: "raised + content \<Rightarrow> response" where
  "respond r =
     (case r of
        Inr c \<Rightarrow> \<lparr>status_code = 200, content = c\<rparr>
      | Inl (HTTPException s d) \<Rightarrow> \<lparr>status_code = s, content = Detail d\<rparr>
      | Inl (Uncaught e) \<Rightarrow> \<lparr>status_code = 500, content = PlainText ''Internal Server Error''\<rparr>)"

definition with_body ::
  "body \<Rightarrow> (JourneyCreate \<Rightarrow> db \<Rightarrow> (raised + content) \<times> db) \<Rightarrow> db \<Rightarrow> response \<times> db" where
  "with_body b handler db =
     (case validate_JourneyCreate b of
        Inl errors \<Rightarrow> (\<lparr>status_code = 422, content = ValidationDetail errors\<rparr>, db)
      | Inr journey \<Rightarrow> (case handler journey db of (r, db') \<Rightarrow> (respond r, db')))"

definition without_body :: "(db \<Rightarrow> (raised + content) \<times> db) \<Rightarrow> db \<Rightarrow> response \<times> db" where
  "without_body handler db = (case handler db of (r, db') \<Rightarrow> (respond r, db'))"

fun app :: "client \<Rightarrow> 128 word \<Rightarrow> request \<Rightarrow> db \<Rightarrow> response \<times> db" where
  "app client urandom (PostJourneyChat b) db = with_body b (chat_with_mistral client urandom) db"
| "app client urandom (GetBonjour nm) db = (respond (Inr (root nm)), db)"
| "app client urandom (PostJourneys b) db = with_body b (create_journey urandom) db"
| "app client urandom (GetJourney journey_id) db = without_body (read_journey journey_id) db"
| "app client urandom GetJourneys db = without_body read_journeys db"
| "app client urandom (PutJourney journey_id b) db = with_body b (update_journey journey_id) db"
| "app client urandom (DeleteJourney journey_id) db = without_body (delete_journey journey_id) db"

subsection \<open>Requests one after the other\<close>





subsection \<open>The checks of the request schema, as the specification words them\<close>

text \<open>
  The specification speaks of a body that fails a presence or type check of one of its
  fields. \<open>required_str_fails\<close> says so of a required text field (missing, or not a
  text), \<open>optional_str_fails\<close> of an optional one (there, not null and not a text), and
  \<open>failing_fields\<close> lists the fields of the create schema that fail. \<open>request_body\<close> is
  the body of the requests that carry one.
\<close>

definition required_str_fails :: "string \<Rightarrow> body \<Rightarrow> bool" where
  "required_str_fails f b = (case b f of Some (JStr s) \<Rightarrow> False | _ \<Rightarrow> True)"

definition optional_str_fails :: "string \<Rightarrow> body \<Rightarrow> bool" where
  "optional_str_fails f b =
     (case b f of None \<Rightarrow> False | Some JNull \<Rightarrow> False | Some (JStr s) \<Rightarrow> False | _ \<Rightarrow> True)"

definition failing_fields :: "body \<Rightarrow> string list" where
  "failing_fields b =
     (if required_str_fails ''name'' b then [''name''] else [])
     @ (if required_str_fails ''description'' b then [''description''] else [])
     @ (if optional_str_fails ''ai_response'' b then [''ai_response''] else [])"

fun request_body :: "request \<Rightarrow> body option" where
  "request_body (PostJourneyChat b) = Some b"
| "request_body (PostJourneys b) = Some b"
| "request_body (PutJourney journey_id b) = Some b"
| "request_body _ = None"


subsection \<open>Example inputs\<close>

text \<open>
  The request of the specification's chat scenario, a client that always answers
  \<^verbatim>\<open>Bonjour!\<close> and a client that always raises.
\<close>

definition trip_body :: body where
  "trip_body = [''name'' \<mapsto> JStr ''Trip'', ''description'' \<mapsto> JStr ''Plan my trip'']"

definition trip :: JourneyCreate where
  "trip = \<lparr>name = ''Trip'', description = ''Plan my trip'', ai_response = None\<rparr>"

definition bonjour_client :: client where
  "bonjour_client m ms = Inr \<lparr>choices = [Some ''Bonjour!'']\<rparr>"

definition unavailable_client :: client where
  "unavailable_client m ms = Inl (ClientError ''Service unavailable'')"

definition paris_body :: body where
  "paris_body = [''name'' \<mapsto> JStr ''Paris'', ''description'' \<mapsto> JStr ''Three days'',
                 ''ai_response'' \<mapsto> JStr ''written by the client'']"

definition paris :: JourneyCreate where
  "paris = \<lparr>name = ''Paris'', description = ''Three days'',
            ai_response = Some ''written by the client''\<rparr>"


text \<open>The record and the update of the specification's update scenario.\<close>

definition abc_row :: Journey where
  "abc_row = \<lparr>id_col = ''x'', name_col = ''A'', description_col = ''B'',
              ai_response_col = Some ''C''\<rparr>"

definition a2_body :: body where
  "a2_body = [''name'' \<mapsto> JStr ''A2'', ''description'' \<mapsto> JStr ''B2'']"

definition a2 :: JourneyCreate where
  "a2 = \<lparr>name = ''A2'', description = ''B2'', ai_response = None\<rparr>"


text \<open>
  A body with a number as name and no description, and a row whose \<^verbatim>\<open>id\<close> is the
  identifier that the random bytes 0 give.
\<close>

definition bad_body :: body where
  "bad_body = [''name'' \<mapsto> JNum 5]"



section \<open>Properties\<close>

subsection \<open>The generated identifier\<close>



lemma uuid4_0: "uuid4 0 = 0x40008000000000000000"
  by (simp add: uuid4_def)


lemma upt_32:
  "[0..<32] = [0, 1, 2, 3, 4, 5, 6, 7, 8, 9, 10, 11, 12, 13, 14, 15, 16, 17, 18, 19, 20,
               21, 22, 23, 24, 25, 26, 27, 28, 29, 30, 31]"
  by (simp add: upt_rec)

lemma str_uuid4_0: "str_uuid (uuid4 0) = ''00000000-0000-4000-8000-000000000000''"
  by (simp add: uuid4_0 str_uuid_def hex32_def upt_32 hexdigit_def)


subsection \<open>Queries and commits\<close>

lemma query_first_None_iff: "query_first j db = None \<longleftrightarrow> j \<notin> set (map id_col db)"
  by (auto simp: query_first_def find_None_iff)

lemma query_first_SomeD: "query_first j db = Some r \<Longrightarrow> id_col r = j \<and> r \<in> set db"
  by (auto simp: query_first_def find_Some_iff)

lemma query_first_append:
  "query_first j (db @ [row]) =
     (case query_first j db of Some r \<Rightarrow> Some r | None \<Rightarrow> if id_col row = j then Some row else None)"
  by (induction db) (simp_all add: query_first_def)

lemma add_commit_InrD:
  "add_commit row db = Inr db' \<Longrightarrow> db' = db @ [row] \<and> id_col row \<notin> set (map id_col db)"
  by (auto simp: add_commit_def split: if_splits)

lemma refresh_after_add:
  assumes "add_commit row db = Inr db'"
  shows "refresh row db' = Inr row"
proof -
  from assms have db': "db' = db @ [row]" and fresh: "id_col row \<notin> set (map id_col db)"
    using add_commit_InrD by blast+
  from fresh have "query_first (id_col row) db = None"
    by (simp add: query_first_None_iff)
  then show ?thesis
    by (simp add: refresh_def db' query_first_append)
qed

lemma add_commit_fresh:
  "id_col row \<notin> set (map id_col db) \<Longrightarrow> add_commit row db = Inr (db @ [row])"
  by (simp add: add_commit_def)

lemma add_commit_InlD:
  "add_commit row db = Inl e \<Longrightarrow> e = IntegrityError \<and> id_col row \<in> set (map id_col db)"
  by (auto simp: add_commit_def split: if_splits)

lemma query_first_last:
  "j \<notin> set (map id_col db) \<Longrightarrow> id_col row = j \<Longrightarrow> query_first j (db @ [row]) = Some row"
  using query_first_None_iff [of j db] by (simp add: query_first_append)

subsection \<open>Validation\<close>


lemma validate_trip_body: "validate_JourneyCreate trip_body = Inr trip"
  by (simp add: validate_JourneyCreate_def trip_body_def trip_def Let_def str_errors_def
        optional_str_errors_def str_value_def optional_str_value_def)

lemma validate_paris_body: "validate_JourneyCreate paris_body = Inr paris"
  by (simp add: validate_JourneyCreate_def paris_body_def paris_def Let_def str_errors_def
        optional_str_errors_def str_value_def optional_str_value_def)

lemma validate_a2_body: "validate_JourneyCreate a2_body = Inr a2"
  by (simp add: validate_JourneyCreate_def a2_body_def a2_def Let_def str_errors_def
        optional_str_errors_def str_value_def optional_str_value_def)

subsection \<open>The two handlers that insert\<close>

text \<open>
  After a commit that went through, the refresh finds the row that was added, so both
  handlers either fail at the commit and write nothing, or append exactly their row.
\<close>

lemma chat_try_client_raises:
  "client model [(''user'', description journey)] = Inl e \<Longrightarrow>
     chat_with_mistral_try client urandom journey db = (Inl e, db)"
  by (simp add: chat_with_mistral_try_def)

lemma create_journey_eq:
  "create_journey urandom journey db =
     (if str_uuid (uuid4 urandom) \<in> set (map id_col db)
      then (Inl (Uncaught IntegrityError), db)
      else (Inr (JourneyBody (JourneyResponse_of
                   \<lparr>id_col = str_uuid (uuid4 urandom), name_col = name journey,
                    description_col = description journey, ai_response_col = None\<rparr>)),
            db @ [\<lparr>id_col = str_uuid (uuid4 urandom), name_col = name journey,
                   description_col = description journey, ai_response_col = None\<rparr>]))"
proof (cases "str_uuid (uuid4 urandom) \<in> set (map id_col db)")
  case True
  then show ?thesis
    by (simp add: create_journey_def add_commit_def Let_def)
next
  case False
  let ?row = "\<lparr>id_col = str_uuid (uuid4 urandom), name_col = name journey,
                description_col = description journey, ai_response_col = None\<rparr>"
  from False have a: "add_commit ?row db = Inr (db @ [?row])"
    by (simp add: add_commit_def)
  from refresh_after_add [OF a] have "refresh ?row (db @ [?row]) = Inr ?row" .
  with a False show ?thesis
    by (simp add: create_journey_def Let_def)
qed

lemma chat_with_mistral_try_eq:
  "chat_with_mistral_try client urandom journey db =
     (case client model [(''user'', description journey)] of
        Inl e \<Rightarrow> (Inl e, db)
      | Inr chat_response \<Rightarrow>
          (case choices chat_response of
             [] \<Rightarrow> (Inl IndexError, db)
           | a # _ \<Rightarrow>
               if str_uuid (uuid4 urandom) \<in> set (map id_col db)
               then (Inl IntegrityError, db)
               else (Inr (ChatReply a),
                     db @ [\<lparr>id_col = str_uuid (uuid4 urandom), name_col = name journey,
                            description_col = description journey, ai_response_col = a\<rparr>])))"
proof (cases "client model [(''user'', description journey)]")
  case (Inl e)
  then show ?thesis by (simp add: chat_with_mistral_try_def)
next
  case (Inr chat_response)
  show ?thesis
  proof (cases "choices chat_response")
    case Nil
    with Inr show ?thesis by (simp add: chat_with_mistral_try_def)
  next
    case (Cons a rest)
    let ?row = "\<lparr>id_col = str_uuid (uuid4 urandom), name_col = name journey,
                  description_col = description journey, ai_response_col = a\<rparr>"
    show ?thesis
    proof (cases "str_uuid (uuid4 urandom) \<in> set (map id_col db)")
      case True
      with Inr Cons show ?thesis
        by (simp add: chat_with_mistral_try_def add_commit_def Let_def)
    next
      case False
      then have a: "add_commit ?row db = Inr (db @ [?row])"
        by (simp add: add_commit_def)
      from refresh_after_add [OF a] have "refresh ?row (db @ [?row]) = Inr ?row" .
      with a False Inr Cons show ?thesis
        by (simp add: chat_with_mistral_try_def Let_def)
    qed
  qed
qed

lemma post_journeys_eq:
  assumes "validate_JourneyCreate b = Inr journey"
  shows "app client urandom (PostJourneys b) db =
     (if str_uuid (uuid4 urandom) \<in> set (map id_col db)
      then (\<lparr>status_code = 500, content = PlainText ''Internal Server Error''\<rparr>, db)
      else (\<lparr>status_code = 200, content = JourneyBody
                \<lparr>name = name journey, description = description journey,
                 ai_response = None, id_field = str_uuid (uuid4 urandom)\<rparr>\<rparr>,
            db @ [\<lparr>id_col = str_uuid (uuid4 urandom), name_col = name journey,
                   description_col = description journey, ai_response_col = None\<rparr>]))"
  using assms
  by (simp add: with_body_def create_journey_eq respond_def JourneyResponse_of_def)

lemma post_journey_chat_eq:
  assumes "validate_JourneyCreate b = Inr journey"
  shows "app client urandom (PostJourneyChat b) db =
     (case chat_with_mistral_try client urandom journey db of
        (Inl e, db') \<Rightarrow> (\<lparr>status_code = 500, content = Detail (str_error e)\<rparr>, db')
      | (Inr v, db') \<Rightarrow> (\<lparr>status_code = 200, content = v\<rparr>, db'))"
  using assms
  by (simp add: with_body_def chat_with_mistral_def respond_def split: prod.splits sum.splits)

lemma get_journey_found:
  "query_first j db = Some r \<Longrightarrow>
     app client urandom (GetJourney j) db =
       (\<lparr>status_code = 200, content = JourneyBody (JourneyResponse_of r)\<rparr>, db)"
  by (simp add: without_body_def read_journey_def respond_def)

subsection \<open>The primary key\<close>

text \<open>
  No request makes two rows share an \<^verbatim>\<open>id\<close>, and a run of create requests returns
  identifiers that are new to the table and differ from one another.
\<close>

lemma ids_update_commit: "map id_col (update_commit j n d db) = map id_col db"
  by (induction db) (simp_all add: update_commit_def)






lemma snd_with_body:
  "snd (with_body b handler db) =
     (case validate_JourneyCreate b of Inl errors \<Rightarrow> db | Inr journey \<Rightarrow> snd (handler journey db))"
  by (simp add: with_body_def split: sum.splits prod.splits)

lemma snd_without_body: "snd (without_body handler db) = snd (handler db)"
  by (simp add: without_body_def split: prod.splits)








subsection \<open>Update, delete and the identifiers that are not there\<close>

lemma query_first_update_commit:
  "query_first y (update_commit x n d db) =
     map_option (\<lambda>r. if id_col r = x then r\<lparr>name_col := n, description_col := d\<rparr> else r)
       (query_first y db)"
  by (induction db) (simp_all add: query_first_def update_commit_def)

lemma ai_responses_update_commit:
  "map ai_response_col (update_commit x n d db) = map ai_response_col db"
  by (induction db) (simp_all add: update_commit_def)

lemma update_journey_found:
  assumes "query_first x db = Some r"
  shows "update_journey x journey db =
           (Inr (JourneyBody (JourneyResponse_of
                   (r\<lparr>name_col := name journey, description_col := description journey\<rparr>))),
            update_commit x (name journey) (description journey) db)"
proof -
  from query_first_SomeD [OF assms] have x: "id_col r = x" by simp
  have "query_first x (update_commit x (name journey) (description journey) db)
          = Some (r\<lparr>name_col := name journey, description_col := description journey\<rparr>)"
    by (simp add: query_first_update_commit assms x)
  then show ?thesis
    by (simp add: update_journey_def assms x refresh_def Let_def)
qed

lemma not_found_handlers:
  assumes "x \<notin> set (map id_col db)"
  shows "read_journey x db = (Inl (HTTPException 404 ''Journey not found''), db)"
    and "update_journey x journey db = (Inl (HTTPException 404 ''Journey not found''), db)"
    and "delete_journey x db = (Inl (HTTPException 404 ''Journey not found''), db)"
proof -
  from assms have "query_first x db = None"
    by (simp add: query_first_None_iff)
  then show "read_journey x db = (Inl (HTTPException 404 ''Journey not found''), db)"
    and "update_journey x journey db = (Inl (HTTPException 404 ''Journey not found''), db)"
    and "delete_journey x db = (Inl (HTTPException 404 ''Journey not found''), db)"
    by (simp_all add: read_journey_def update_journey_def delete_journey_def)
qed

lemma id_absent_after_delete: "x \<notin> set (map id_col (snd (delete_journey x db)))"
proof (cases "query_first x db")
  case None
  with query_first_None_iff [of x db] show ?thesis
    by (simp add: delete_journey_def)
next
  case (Some r)
  with query_first_SomeD [OF Some] show ?thesis
    by (auto simp: delete_journey_def delete_commit_def)
qed

subsection \<open>Bodies that do not fit the schema\<close>

lemma str_errors_loc:
  "map err_loc (str_errors f b) = (if required_str_fails f b then [[''body'', f]] else [])"
  by (simp add: str_errors_def required_str_fails_def missing_def string_type_def
        split: option.splits json.splits)

lemma optional_str_errors_loc:
  "map err_loc (optional_str_errors f b) = (if optional_str_fails f b then [[''body'', f]] else [])"
  by (simp add: optional_str_errors_def optional_str_fails_def string_type_def
        split: option.splits json.splits)

lemma validate_errors_loc:
  "map err_loc (str_errors ''name'' b @ str_errors ''description'' b
                @ optional_str_errors ''ai_response'' b)
     = map (\<lambda>f. [''body'', f]) (failing_fields b)"
  by (simp add: str_errors_loc optional_str_errors_loc failing_fields_def)

lemma validate_failing:
  assumes "failing_fields b \<noteq> []"
  shows "\<exists>errors. validate_JourneyCreate b = Inl errors
           \<and> map err_loc errors = map (\<lambda>f. [''body'', f]) (failing_fields b)"
proof -
  let ?errors = "str_errors ''name'' b @ str_errors ''description'' b
                 @ optional_str_errors ''ai_response'' b"
  from assms validate_errors_loc [of b] have "?errors \<noteq> []"
    by (metis list.map_disc_iff)
  then have "validate_JourneyCreate b = Inl ?errors"
    by (simp add: validate_JourneyCreate_def Let_def)
  with validate_errors_loc [of b] show ?thesis by blast
qed

lemma validate_passing:
  assumes "failing_fields b = []"
  shows "\<exists>journey. validate_JourneyCreate b = Inr journey"
proof -
  from assms validate_errors_loc [of b]
  have "str_errors ''name'' b @ str_errors ''description'' b
          @ optional_str_errors ''ai_response'' b = []"
    by simp
  then show ?thesis
    by (simp add: validate_JourneyCreate_def Let_def)
qed

lemma app_invalid_body:
  assumes "request_body req = Some b" and "validate_JourneyCreate b = Inl errors"
  shows "app client urandom req db = (\<lparr>status_code = 422, content = ValidationDetail errors\<rparr>, db)"
  using assms by (cases req) (simp_all add: with_body_def)

subsection \<open>The chat endpoint\<close>

text \<open>
  Claim C1. When the call to the Mistral client raises, \<^verbatim>\<open>POST /journey/chat\<close> answers
  500 with the message of the exception as \<^verbatim>\<open>detail\<close>, and the table after the request
  is the table before it.
\<close>

theorem chat_create_ai_failure:
  assumes "validate_JourneyCreate b = Inr journey"
    and "client model [(''user'', description journey)] = Inl e"
  shows "app client urandom (PostJourneyChat b) db
           = (\<lparr>status_code = 500, content = Detail (str_error e)\<rparr>, db)"
  using assms
  by (simp add: with_body_def chat_with_mistral_def chat_try_client_raises respond_def)

theorem chat_create_ai_failure_witness:
  "validate_JourneyCreate trip_body = Inr trip
   \<and> unavailable_client model [(''user'', description trip)]
       = Inl (ClientError ''Service unavailable'')
   \<and> app unavailable_client 0 (PostJourneyChat trip_body) []
       = (\<lparr>status_code = 500, content = Detail ''Service unavailable''\<rparr>, [])"
  using chat_create_ai_failure [of trip_body trip unavailable_client
      "ClientError ''Service unavailable''" 0 "[]"]
  by (simp add: validate_trip_body unavailable_client_def)



subsection \<open>Create, then read\<close>

text \<open>
  Claim C3. When \<^verbatim>\<open>POST /journeys/\<close> answers with a record, that record has the name
  and the description of the body, and \<^verbatim>\<open>GET /journeys/{id}\<close> with the returned
  \<^verbatim>\<open>id\<close> answers with the same record, whatever the client and the random bytes of
  the second request. When \<^verbatim>\<open>POST /journey/chat\<close> answers with a reply, reading the
  identifier that was generated for the new row gives the name and the description of
  the body and the reply as \<^verbatim>\<open>ai_response\<close>.
\<close>

theorem create_then_read:
  assumes "validate_JourneyCreate b = Inr journey"
  shows "(app client urandom (PostJourneys b) db
            = (\<lparr>status_code = 200, content = JourneyBody j\<rparr>, db') \<longrightarrow>
          name j = name journey \<and> description j = description journey \<and>
          app client' urandom' (GetJourney (id_field j)) db'
            = (\<lparr>status_code = 200, content = JourneyBody j\<rparr>, db'))
       \<and> (app client urandom (PostJourneyChat b) db
            = (\<lparr>status_code = 200, content = ChatReply reply\<rparr>, db') \<longrightarrow>
          app client' urandom' (GetJourney (str_uuid (uuid4 urandom))) db'
            = (\<lparr>status_code = 200, content = JourneyBody
                 \<lparr>name = name journey, description = description journey,
                  ai_response = reply, id_field = str_uuid (uuid4 urandom)\<rparr>\<rparr>, db'))"
proof (intro conjI impI)
  let ?u = "str_uuid (uuid4 urandom)"
  let ?row = "\<lparr>id_col = ?u, name_col = name journey,
                description_col = description journey, ai_response_col = None\<rparr>"
  assume ok: "app client urandom (PostJourneys b) db
                = (\<lparr>status_code = 200, content = JourneyBody j\<rparr>, db')"
  have fresh: "?u \<notin> set (map id_col db)"
    using ok post_journeys_eq [OF assms, of client urandom db] by (auto split: if_splits)
  with ok post_journeys_eq [OF assms, of client urandom db]
  have j: "j = JourneyResponse_of ?row" and db': "db' = db @ [?row]"
    by (simp_all add: JourneyResponse_of_def)
  show "name j = name journey" and "description j = description journey"
    by (simp_all add: j JourneyResponse_of_def)
  have "query_first (id_field j) db' = Some ?row"
    using fresh by (simp add: j db' JourneyResponse_of_def query_first_last)
  from get_journey_found [OF this, of client' urandom']
  show "app client' urandom' (GetJourney (id_field j)) db'
               = (\<lparr>status_code = 200, content = JourneyBody j\<rparr>, db')"
    by (simp add: j)
next
  let ?u = "str_uuid (uuid4 urandom)"
  let ?row = "\<lparr>id_col = ?u, name_col = name journey,
                description_col = description journey, ai_response_col = reply\<rparr>"
  assume ok: "app client urandom (PostJourneyChat b) db
                = (\<lparr>status_code = 200, content = ChatReply reply\<rparr>, db')"
  then have tried: "chat_with_mistral_try client urandom journey db = (Inr (ChatReply reply), db')"
    using post_journey_chat_eq [OF assms, of client urandom db]
    by (auto split: prod.splits sum.splits)
  then have fresh: "?u \<notin> set (map id_col db)" and db': "db' = db @ [?row]"
    by (auto simp: chat_with_mistral_try_eq split: sum.splits list.splits if_splits)
  have "query_first ?u db' = Some ?row"
    using fresh by (simp add: db' query_first_last)
  from get_journey_found [OF this, of client' urandom']
  show "app client' urandom' (GetJourney ?u) db'
               = (\<lparr>status_code = 200, content = JourneyBody
                    \<lparr>name = name journey, description = description journey,
                     ai_response = reply, id_field = ?u\<rparr>\<rparr>, db')"
    by (simp add: JourneyResponse_of_def)
qed

theorem create_then_read_witness:
  "validate_JourneyCreate trip_body = Inr trip
   \<and> app unavailable_client 0 (PostJourneys trip_body) []
       = (\<lparr>status_code = 200, content = JourneyBody
            \<lparr>name = ''Trip'', description = ''Plan my trip'', ai_response = None,
             id_field = ''00000000-0000-4000-8000-000000000000''\<rparr>\<rparr>,
          [\<lparr>id_col = ''00000000-0000-4000-8000-000000000000'', name_col = ''Trip'',
            description_col = ''Plan my trip'', ai_response_col = None\<rparr>])
   \<and> app unavailable_client 1 (GetJourney ''00000000-0000-4000-8000-000000000000'')
         [\<lparr>id_col = ''00000000-0000-4000-8000-000000000000'', name_col = ''Trip'',
           description_col = ''Plan my trip'', ai_response_col = None\<rparr>]
       = (\<lparr>status_code = 200, content = JourneyBody
            \<lparr>name = ''Trip'', description = ''Plan my trip'', ai_response = None,
             id_field = ''00000000-0000-4000-8000-000000000000''\<rparr>\<rparr>,
          [\<lparr>id_col = ''00000000-0000-4000-8000-000000000000'', name_col = ''Trip'',
            description_col = ''Plan my trip'', ai_response_col = None\<rparr>])
   \<and> app bonjour_client 0 (PostJourneyChat trip_body) []
       = (\<lparr>status_code = 200, content = ChatReply (Some ''Bonjour!'')\<rparr>,
          [\<lparr>id_col = ''00000000-0000-4000-8000-000000000000'', name_col = ''Trip'',
            description_col = ''Plan my trip'', ai_response_col = Some ''Bonjour!''\<rparr>])
   \<and> app unavailable_client 1 (GetJourney ''00000000-0000-4000-8000-000000000000'')
         [\<lparr>id_col = ''00000000-0000-4000-8000-000000000000'', name_col = ''Trip'',
           description_col = ''Plan my trip'', ai_response_col = Some ''Bonjour!''\<rparr>]
       = (\<lparr>status_code = 200, content = JourneyBody
            \<lparr>name = ''Trip'', description = ''Plan my trip'', ai_response = Some ''Bonjour!'',
             id_field = ''00000000-0000-4000-8000-000000000000''\<rparr>\<rparr>,
          [\<lparr>id_col = ''00000000-0000-4000-8000-000000000000'', name_col = ''Trip'',
            description_col = ''Plan my trip'', ai_response_col = Some ''Bonjour!''\<rparr>])"
proof -
  let ?u = "''00000000-0000-4000-8000-000000000000''"
  let ?j = "\<lparr>name = ''Trip'', description = ''Plan my trip'', ai_response = None,
             id_field = ?u\<rparr>"
  let ?r = "\<lparr>id_col = ?u, name_col = ''Trip'', description_col = ''Plan my trip'',
             ai_response_col = None\<rparr>"
  let ?r' = "\<lparr>id_col = ?u, name_col = ''Trip'', description_col = ''Plan my trip'',
              ai_response_col = Some ''Bonjour!''\<rparr>"
  have v: "validate_JourneyCreate trip_body = Inr trip"
    by (rule validate_trip_body)
  have c: "app unavailable_client 0 (PostJourneys trip_body) []
             = (\<lparr>status_code = 200, content = JourneyBody ?j\<rparr>, [?r])"
    using post_journeys_eq [OF v, of unavailable_client 0 "[]"]
    by (simp add: str_uuid4_0 trip_def)
  have ch: "app bonjour_client 0 (PostJourneyChat trip_body) []
              = (\<lparr>status_code = 200, content = ChatReply (Some ''Bonjour!'')\<rparr>, [?r'])"
    using post_journey_chat_eq [OF v, of bonjour_client 0 "[]"]
    by (simp add: chat_with_mistral_try_eq bonjour_client_def str_uuid4_0 trip_def)
  from create_then_read [OF v, where client = unavailable_client and urandom = 0
      and db = "[]" and j = "?j" and db' = "[?r]" and client' = unavailable_client
      and urandom' = 1] c
  have "app unavailable_client 1 (GetJourney ?u) [?r]
          = (\<lparr>status_code = 200, content = JourneyBody ?j\<rparr>, [?r])"
    by (simp add: trip_def)
  moreover
  from create_then_read [OF v, where client = bonjour_client and urandom = 0
      and db = "[]" and reply = "Some ''Bonjour!''" and db' = "[?r']"
      and client' = unavailable_client and urandom' = 1] ch
  have "app unavailable_client 1 (GetJourney ?u) [?r']
          = (\<lparr>status_code = 200, content = JourneyBody
               \<lparr>name = ''Trip'', description = ''Plan my trip'',
                ai_response = Some ''Bonjour!'', id_field = ?u\<rparr>\<rparr>, [?r'])"
    by (simp add: str_uuid4_0 trip_def)
  ultimately show ?thesis using v c ch by simp
qed


subsection \<open>Plain create\<close>

text \<open>
  Claim C9. For a valid body, \<^verbatim>\<open>POST /journeys/\<close> either answers 200 with a record whose
  \<^verbatim>\<open>ai_response\<close> is absent and appends a row whose \<^verbatim>\<open>ai_response\<close> is absent, or
  answers 500 and leaves the table as it was; and a body that supplies an
  \<^verbatim>\<open>ai_response\<close> text is answered exactly as the same body without it.
\<close>

theorem plain_create_stores_no_ai_response:
  assumes "validate_JourneyCreate b = Inr journey"
    and "app client urandom (PostJourneys b) db = (resp, db')"
  shows "((resp = \<lparr>status_code = 200, content = JourneyBody
                    \<lparr>name = name journey, description = description journey,
                     ai_response = None, id_field = str_uuid (uuid4 urandom)\<rparr>\<rparr>
           \<and> db' = db @ [\<lparr>id_col = str_uuid (uuid4 urandom), name_col = name journey,
                           description_col = description journey, ai_response_col = None\<rparr>])
          \<or> (status_code resp = 500 \<and> db' = db))
       \<and> app client urandom (PostJourneys (b(''ai_response'' \<mapsto> JStr a))) db
           = app client urandom (PostJourneys (b(''ai_response'' := None))) db"
proof
  show "(resp = \<lparr>status_code = 200, content = JourneyBody
                    \<lparr>name = name journey, description = description journey,
                     ai_response = None, id_field = str_uuid (uuid4 urandom)\<rparr>\<rparr>
           \<and> db' = db @ [\<lparr>id_col = str_uuid (uuid4 urandom), name_col = name journey,
                           description_col = description journey, ai_response_col = None\<rparr>])
          \<or> (status_code resp = 500 \<and> db' = db)"
    using assms(2) post_journeys_eq [OF assms(1), of client urandom db]
    by (auto split: if_splits)
next
  have e: "str_errors f (b(''ai_response'' \<mapsto> JStr a)) = str_errors f (b(''ai_response'' := None))"
    if "f \<noteq> ''ai_response''" for f
    using that by (simp add: str_errors_def)
  have v: "str_value f (b(''ai_response'' \<mapsto> JStr a)) = str_value f (b(''ai_response'' := None))"
    if "f \<noteq> ''ai_response''" for f
    using that by (simp add: str_value_def)
  have c: "create_journey urandom \<lparr>name = n, description = d, ai_response = Some a\<rparr>
             = create_journey urandom \<lparr>name = n, description = d, ai_response = None\<rparr>"
    for n d
    by (simp add: create_journey_def fun_eq_iff)
  show "app client urandom (PostJourneys (b(''ai_response'' \<mapsto> JStr a))) db
           = app client urandom (PostJourneys (b(''ai_response'' := None))) db"
    by (simp add: with_body_def validate_JourneyCreate_def Let_def e v c
          optional_str_errors_def optional_str_value_def)
qed

theorem plain_create_stores_no_ai_response_witness:
  "validate_JourneyCreate paris_body = Inr paris
   \<and> ai_response paris = Some ''written by the client''
   \<and> app unavailable_client 0 (PostJourneys paris_body) []
       = (\<lparr>status_code = 200, content = JourneyBody
            \<lparr>name = ''Paris'', description = ''Three days'', ai_response = None,
             id_field = ''00000000-0000-4000-8000-000000000000''\<rparr>\<rparr>,
          [\<lparr>id_col = ''00000000-0000-4000-8000-000000000000'', name_col = ''Paris'',
            description_col = ''Three days'', ai_response_col = None\<rparr>])"
proof -
  obtain resp db' where a: "app unavailable_client 0 (PostJourneys paris_body) [] = (resp, db')"
    by (cases "app unavailable_client 0 (PostJourneys paris_body) []")
  from plain_create_stores_no_ai_response [OF validate_paris_body a]
  have "resp = \<lparr>status_code = 200, content = JourneyBody
            \<lparr>name = ''Paris'', description = ''Three days'', ai_response = None,
             id_field = ''00000000-0000-4000-8000-000000000000''\<rparr>\<rparr>
        \<and> db' = [\<lparr>id_col = ''00000000-0000-4000-8000-000000000000'', name_col = ''Paris'',
            description_col = ''Three days'', ai_response_col = None\<rparr>]
        \<or> status_code resp = 500 \<and> db' = []"
    by (simp add: paris_def str_uuid4_0)
  moreover have "status_code resp \<noteq> 500"
    using a post_journeys_eq [OF validate_paris_body, of unavailable_client 0 "[]"] by auto
  ultimately show ?thesis
    using a by (simp add: validate_paris_body paris_def)
qed

subsection \<open>Identifiers\<close>




subsection \<open>Update\<close>

text \<open>
  Claim C4. When the table has a row with the \<^verbatim>\<open>id\<close> \<open>x\<close> and the body is valid,
  \<^verbatim>\<open>PUT /journeys/x\<close> answers 200 with the record that has the new name and description
  and the old \<^verbatim>\<open>id\<close> and \<^verbatim>\<open>ai_response\<close>; the row stored under \<open>x\<close> afterwards is that
  record; the \<^verbatim>\<open>id\<close> and \<^verbatim>\<open>ai_response\<close> columns of the table are as before, and so is
  what a lookup of any other \<^verbatim>\<open>id\<close> finds.
\<close>

theorem update_overwrites_name_and_description:
  assumes "query_first x db = Some r"
    and "validate_JourneyCreate b = Inr journey"
    and "app client urandom (PutJourney x b) db = (resp, db')"
  shows "resp = \<lparr>status_code = 200, content = JourneyBody
                  \<lparr>name = name journey, description = description journey,
                   ai_response = ai_response_col r, id_field = x\<rparr>\<rparr>
       \<and> query_first x db' = Some \<lparr>id_col = x, name_col = name journey,
                                   description_col = description journey,
                                   ai_response_col = ai_response_col r\<rparr>
       \<and> map id_col db' = map id_col db
       \<and> map ai_response_col db' = map ai_response_col db
       \<and> (\<forall>y. y \<noteq> x \<longrightarrow> query_first y db' = query_first y db)"
proof -
  from query_first_SomeD [OF assms(1)] have x: "id_col r = x" by simp
  let ?r' = "r\<lparr>name_col := name journey, description_col := description journey\<rparr>"
  have r': "?r' = \<lparr>id_col = x, name_col = name journey,
                    description_col = description journey,
                    ai_response_col = ai_response_col r\<rparr>"
    using x by (cases r) simp
  from assms(3) update_journey_found [OF assms(1), of journey]
  have resp: "resp = \<lparr>status_code = 200, content = JourneyBody (JourneyResponse_of ?r')\<rparr>"
    and db': "db' = update_commit x (name journey) (description journey) db"
    by (simp_all add: with_body_def assms(2) respond_def)
  have "resp = \<lparr>status_code = 200, content = JourneyBody
                  \<lparr>name = name journey, description = description journey,
                   ai_response = ai_response_col r, id_field = x\<rparr>\<rparr>"
    unfolding resp r' by (simp add: JourneyResponse_of_def)
  moreover have "query_first x db' = Some \<lparr>id_col = x, name_col = name journey,
                                   description_col = description journey,
                                   ai_response_col = ai_response_col r\<rparr>"
    unfolding db' r' [symmetric] by (simp add: query_first_update_commit assms(1) x)
  moreover have "map id_col db' = map id_col db"
    unfolding db' by (rule ids_update_commit)
  moreover have "map ai_response_col db' = map ai_response_col db"
    unfolding db' by (rule ai_responses_update_commit)
  moreover have "\<forall>y. y \<noteq> x \<longrightarrow> query_first y db' = query_first y db"
  proof (intro allI impI)
    fix y assume "y \<noteq> x"
    show "query_first y db' = query_first y db"
    proof (cases "query_first y db")
      case None
      then show ?thesis by (simp add: db' query_first_update_commit)
    next
      case (Some s)
      with query_first_SomeD [OF Some] \<open>y \<noteq> x\<close> show ?thesis
        by (simp add: db' query_first_update_commit)
    qed
  qed
  ultimately show ?thesis by blast
qed

theorem update_overwrites_name_and_description_witness:
  "query_first ''x'' [abc_row] = Some abc_row
   \<and> validate_JourneyCreate a2_body = Inr a2
   \<and> app unavailable_client 0 (PutJourney ''x'' a2_body) [abc_row]
       = (\<lparr>status_code = 200, content = JourneyBody
            \<lparr>name = ''A2'', description = ''B2'', ai_response = Some ''C'',
             id_field = ''x''\<rparr>\<rparr>,
          [\<lparr>id_col = ''x'', name_col = ''A2'', description_col = ''B2'',
            ai_response_col = Some ''C''\<rparr>])"
proof -
  have q: "query_first ''x'' [abc_row] = Some abc_row"
    by (simp add: query_first_def abc_row_def)
  obtain resp db' where a: "app unavailable_client 0 (PutJourney ''x'' a2_body) [abc_row] = (resp, db')"
    by (cases "app unavailable_client 0 (PutJourney ''x'' a2_body) [abc_row]")
  from update_overwrites_name_and_description [OF q validate_a2_body a]
  have "resp = \<lparr>status_code = 200, content = JourneyBody
            \<lparr>name = ''A2'', description = ''B2'', ai_response = Some ''C'',
             id_field = ''x''\<rparr>\<rparr>"
    by (simp add: a2_def abc_row_def)
  moreover have "db' = [\<lparr>id_col = ''x'', name_col = ''A2'', description_col = ''B2'',
            ai_response_col = Some ''C''\<rparr>]"
    using a update_journey_found [OF q, of a2]
    by (simp add: with_body_def validate_a2_body update_commit_def a2_def abc_row_def)
  ultimately show ?thesis
    using q a by (simp add: validate_a2_body)
qed


subsection \<open>Identifiers that are not in the table\<close>

text \<open>
  Claim C5. For an \<^verbatim>\<open>id\<close> that no row has, the handlers \<^verbatim>\<open>read_journey\<close>,
  \<^verbatim>\<open>update_journey\<close> and \<^verbatim>\<open>delete_journey\<close> raise \<^verbatim>\<open>HTTPException(404, "Journey not found")\<close>,
  and the three routes answer 404 with that detail (the update route for a valid body).
  After a delete request for an \<^verbatim>\<open>id\<close>, found or not, reading that \<^verbatim>\<open>id\<close> answers 404
  with the same detail.
\<close>

theorem absent_id_not_found:
  "(x \<notin> set (map id_col db) \<longrightarrow>
      fst (read_journey x db) = Inl (HTTPException 404 ''Journey not found'')
      \<and> fst (update_journey x journey db) = Inl (HTTPException 404 ''Journey not found'')
      \<and> fst (delete_journey x db) = Inl (HTTPException 404 ''Journey not found'')
      \<and> fst (app client urandom (GetJourney x) db)
          = \<lparr>status_code = 404, content = Detail ''Journey not found''\<rparr>
      \<and> (validate_JourneyCreate b = Inr journey \<longrightarrow>
           fst (app client urandom (PutJourney x b) db)
             = \<lparr>status_code = 404, content = Detail ''Journey not found''\<rparr>)
      \<and> fst (app client urandom (DeleteJourney x) db)
          = \<lparr>status_code = 404, content = Detail ''Journey not found''\<rparr>)
   \<and> fst (app client' urandom' (GetJourney y)
            (snd (app client urandom (DeleteJourney y) db)))
       = \<lparr>status_code = 404, content = Detail ''Journey not found''\<rparr>"
proof (intro conjI impI)
  assume a: "x \<notin> set (map id_col db)"
  note nf = not_found_handlers [OF a]
  show "fst (read_journey x db) = Inl (HTTPException 404 ''Journey not found'')"
    by (simp add: nf(1))
  show "fst (update_journey x journey db) = Inl (HTTPException 404 ''Journey not found'')"
    by (simp add: nf(2))
  show "fst (delete_journey x db) = Inl (HTTPException 404 ''Journey not found'')"
    by (simp add: nf(3))
  show "fst (app client urandom (GetJourney x) db)
          = \<lparr>status_code = 404, content = Detail ''Journey not found''\<rparr>"
    by (simp add: without_body_def nf(1) respond_def)
  show "fst (app client urandom (DeleteJourney x) db)
          = \<lparr>status_code = 404, content = Detail ''Journey not found''\<rparr>"
    by (simp add: without_body_def nf(3) respond_def)
  assume "validate_JourneyCreate b = Inr journey"
  then show "fst (app client urandom (PutJourney x b) db)
          = \<lparr>status_code = 404, content = Detail ''Journey not found''\<rparr>"
    by (simp add: with_body_def nf(2) respond_def)
next
  let ?db = "snd (app client urandom (DeleteJourney y) db)"
  have "?db = snd (delete_journey y db)"
    by (simp add: snd_without_body)
  with id_absent_after_delete [of y db] have "y \<notin> set (map id_col ?db)"
    by simp
  from not_found_handlers(1) [OF this]
  show "fst (app client' urandom' (GetJourney y) ?db)
          = \<lparr>status_code = 404, content = Detail ''Journey not found''\<rparr>"
    by (simp add: without_body_def respond_def)
qed

theorem absent_id_not_found_witness:
  "''y'' \<notin> set (map id_col [abc_row])
   \<and> validate_JourneyCreate a2_body = Inr a2
   \<and> fst (app unavailable_client 0 (GetJourney ''y'') [abc_row])
       = \<lparr>status_code = 404, content = Detail ''Journey not found''\<rparr>
   \<and> fst (app unavailable_client 0 (PutJourney ''y'' a2_body) [abc_row])
       = \<lparr>status_code = 404, content = Detail ''Journey not found''\<rparr>
   \<and> fst (app unavailable_client 0 (DeleteJourney ''y'') [abc_row])
       = \<lparr>status_code = 404, content = Detail ''Journey not found''\<rparr>
   \<and> app unavailable_client 0 (DeleteJourney ''x'') [abc_row]
       = (\<lparr>status_code = 200, content = Message ''Journey deleted successfully''\<rparr>, [])
   \<and> fst (app unavailable_client 1 (GetJourney ''x'')
            (snd (app unavailable_client 0 (DeleteJourney ''x'') [abc_row])))
       = \<lparr>status_code = 404, content = Detail ''Journey not found''\<rparr>"
proof -
  have a: "''y'' \<notin> set (map id_col [abc_row])"
    by (simp add: abc_row_def)
  have d: "app unavailable_client 0 (DeleteJourney ''x'') [abc_row]
       = (\<lparr>status_code = 200, content = Message ''Journey deleted successfully''\<rparr>, [])"
    by (simp add: without_body_def delete_journey_def query_first_def delete_commit_def
          respond_def abc_row_def)
  from absent_id_not_found [where x = "''y''" and db = "[abc_row]" and b = a2_body
      and journey = a2 and client = unavailable_client and urandom = 0] a validate_a2_body
  have absent: "fst (app unavailable_client 0 (GetJourney ''y'') [abc_row])
       = \<lparr>status_code = 404, content = Detail ''Journey not found''\<rparr>
   \<and> fst (app unavailable_client 0 (PutJourney ''y'' a2_body) [abc_row])
       = \<lparr>status_code = 404, content = Detail ''Journey not found''\<rparr>
   \<and> fst (app unavailable_client 0 (DeleteJourney ''y'') [abc_row])
       = \<lparr>status_code = 404, content = Detail ''Journey not found''\<rparr>"
    by blast
  from absent_id_not_found [where y = "''x''" and db = "[abc_row]"
      and client = unavailable_client and urandom = 0 and client' = unavailable_client
      and urandom' = 1]
  have deleted: "fst (app unavailable_client 1 (GetJourney ''x'')
            (snd (app unavailable_client 0 (DeleteJourney ''x'') [abc_row])))
       = \<lparr>status_code = 404, content = Detail ''Journey not found''\<rparr>"
    by blast
  from a validate_a2_body absent d deleted show ?thesis
    by blast
qed

text \<open>
  Claim C10. For an \<^verbatim>\<open>id\<close> that no row has, the three handlers raise with the table
  they were given, and the table after the read, update or delete request is the table
  before it, whatever the body of the update request.
\<close>

theorem absent_id_writes_nothing:
  assumes "x \<notin> set (map id_col db)"
  shows "read_journey x db = (Inl (HTTPException 404 ''Journey not found''), db)
       \<and> update_journey x journey db = (Inl (HTTPException 404 ''Journey not found''), db)
       \<and> delete_journey x db = (Inl (HTTPException 404 ''Journey not found''), db)
       \<and> snd (app client urandom (GetJourney x) db) = db
       \<and> snd (app client urandom (PutJourney x b) db) = db
       \<and> snd (app client urandom (DeleteJourney x) db) = db"
proof -
  note nf = not_found_handlers [OF assms]
  have "snd (app client urandom (PutJourney x b) db) = db"
    by (simp add: snd_with_body nf(2) split: sum.splits)
  then show ?thesis
    by (simp add: nf snd_without_body)
qed

theorem absent_id_writes_nothing_witness:
  "''y'' \<notin> set (map id_col [abc_row])
   \<and> snd (app unavailable_client 0 (GetJourney ''y'') [abc_row]) = [abc_row]
   \<and> snd (app unavailable_client 0 (PutJourney ''y'' a2_body) [abc_row]) = [abc_row]
   \<and> snd (app unavailable_client 0 (DeleteJourney ''y'') [abc_row]) = [abc_row]"
proof -
  have a: "''y'' \<notin> set (map id_col [abc_row])"
    by (simp add: abc_row_def)
  from absent_id_writes_nothing [OF a, of a2 unavailable_client 0 a2_body] a
  show ?thesis by simp
qed


subsection \<open>Validation\<close>

text \<open>
  Claim C8. A request whose body has a field that fails its presence or type check is
  answered 422, a client error, with an error list that names exactly the failing
  fields, in the order of the schema, and the table after the request is the table
  before it.
\<close>

theorem invalid_body_rejected:
  assumes "request_body req = Some b" and "failing_fields b \<noteq> []"
  shows "status_code (fst (app client urandom req db)) = 422
       \<and> 400 \<le> status_code (fst (app client urandom req db))
       \<and> status_code (fst (app client urandom req db)) < 500
       \<and> (\<exists>errors. content (fst (app client urandom req db)) = ValidationDetail errors
             \<and> errors \<noteq> []
             \<and> map err_loc errors = map (\<lambda>f. [''body'', f]) (failing_fields b))
       \<and> snd (app client urandom req db) = db"
proof -
  from validate_failing [OF assms(2)] obtain errors
    where v: "validate_JourneyCreate b = Inl errors"
      and l: "map err_loc errors = map (\<lambda>f. [''body'', f]) (failing_fields b)"
    by blast
  from l assms(2) have "errors \<noteq> []" by auto
  with l app_invalid_body [OF assms(1) v, of client urandom db] show ?thesis
    by simp
qed

theorem invalid_body_rejected_witness:
  "request_body (PostJourneys bad_body) = Some bad_body
   \<and> failing_fields bad_body = [''name'', ''description'']
   \<and> failing_fields bad_body \<noteq> []
   \<and> app bonjour_client 0 (PostJourneys bad_body) [abc_row]
       = (\<lparr>status_code = 422, content = ValidationDetail
            [ErrorDetails ''string_type'' [''body'', ''name''] ''Input should be a valid string'',
             ErrorDetails ''missing'' [''body'', ''description''] ''Field required'']\<rparr>,
          [abc_row])"
proof -
  have f: "failing_fields bad_body = [''name'', ''description'']"
    by (simp add: failing_fields_def required_str_fails_def optional_str_fails_def bad_body_def)
  then have n: "failing_fields bad_body \<noteq> []" by simp
  have r: "request_body (PostJourneys bad_body) = Some bad_body" by simp
  have v: "validate_JourneyCreate bad_body
             = Inl [ErrorDetails ''string_type'' [''body'', ''name''] ''Input should be a valid string'',
                    ErrorDetails ''missing'' [''body'', ''description''] ''Field required'']"
    by (simp add: validate_JourneyCreate_def Let_def str_errors_def optional_str_errors_def
          bad_body_def string_type_def missing_def)
  from invalid_body_rejected [OF r n, of bonjour_client 0 "[abc_row]"]
  have "status_code (fst (app bonjour_client 0 (PostJourneys bad_body) [abc_row])) = 422"
    and "snd (app bonjour_client 0 (PostJourneys bad_body) [abc_row]) = [abc_row]"
    by simp_all
  moreover have "content (fst (app bonjour_client 0 (PostJourneys bad_body) [abc_row]))
      = ValidationDetail
            [ErrorDetails ''string_type'' [''body'', ''name''] ''Input should be a valid string'',
             ErrorDetails ''missing'' [''body'', ''description''] ''Field required'']"
    by (simp add: with_body_def v)
  ultimately have "app bonjour_client 0 (PostJourneys bad_body) [abc_row]
       = (\<lparr>status_code = 422, content = ValidationDetail
            [ErrorDetails ''string_type'' [''body'', ''name''] ''Input should be a valid string'',
             ErrorDetails ''missing'' [''body'', ''description''] ''Field required'']\<rparr>,
          [abc_row])"
    by (cases "app bonjour_client 0 (PostJourneys bad_body) [abc_row]") auto
  with f n r show ?thesis by blast
qed





end
